theory Spec2Isabelle
  imports Main
begin

section \<open>Go values shared by the packages\<close>

text \<open>
  A Go \<open>error\<close> is modelled by its message (what \<open>Error()\<close> returns); a value of
  the interface type that may be \<open>nil\<close> is an \<open>error option\<close>, \<open>None\<close> being
  \<open>nil\<close>. A Go function with several results returns a tuple: a slice and an error
  are both returned, as in the source, and neither excludes the other.

  Every collaborator reached through an interface may be stateful, so each of its
  methods takes the state of the world \<open>'s\<close> and returns the new one.
\<close>

type_synonym error = string

text \<open>\<open>url.Values\<close> is \<open>map[string][]string\<close>; \<open>Set\<close> replaces the values of a key.\<close>

type_synonym Values = "string \<rightharpoonup> string list"

definition Values_Set :: "Values \<Rightarrow> string \<Rightarrow> string \<Rightarrow> Values" where
  "Values_Set u k v = u(k \<mapsto> [v])"

section \<open>Package plugin: binding discovery (plugin.go)\<close>

text \<open>
  \<open>cfclient.Service\<close> belongs to the go-cfclient library; the two fields the fixtures
  of the repository set are kept.
\<close>

record Service =
  Guid :: string
  Label :: string

record 's CFClient =
  ListServicesByQuery :: "Values \<Rightarrow> 's \<Rightarrow> (Service list \<times> error option) \<times> 's"

record ServiceBinding =
  App :: string
  Key :: string
  Org :: string
  Space :: string

record 's bindingFinder =
  cfClient :: "'s CFClient"

definition NewBindingFinder :: "'s CFClient \<Rightarrow> 's bindingFinder" where
  "NewBindingFinder c = \<lparr>cfClient = c\<rparr>"

text \<open>
  \<open>FindBindings\<close> as plugin.go has it: the query \<open>q = label:<serviceLabel>\<close> is built,
  \<open>ListServicesByQuery\<close> is called once, its error is assigned to the blank identifier
  and its services are not used; the result is a one-element slice and a \<open>nil\<close> error.
\<close>

definition FindBindings ::
  "'s bindingFinder \<Rightarrow> string \<Rightarrow> 's \<Rightarrow> (ServiceBinding list \<times> error option) \<times> 's" where
  "FindBindings bf serviceLabel s =
     (let u = Map.empty;
          u = Values_Set u ''q'' (''label:'' @ serviceLabel);
          ((services, _), s') = ListServicesByQuery (cfClient bf) u s
      in (([\<lparr>App = ''app'', Key = '''', Org = ''org-name'', Space = ''space-name''\<rparr>],
           None), s'))"

text \<open>
  A recording client, as the generated fakes of the repository's tests are: its state
  is the list of queries received so far, and what it answers is a function of that
  list and of the query. Every deterministic client is of this form.
\<close>

definition recordingCFClient ::
  "(Values list \<Rightarrow> Values \<Rightarrow> Service list \<times> error option) \<Rightarrow> (Values list) CFClient" where
  "recordingCFClient stub =
     \<lparr>ListServicesByQuery = (\<lambda>u calls. (stub calls u, calls @ [u]))\<rparr>"

text \<open>The clients of the scenarios below, each a recording client.\<close>

definition fixtureCFClient :: "(Values list) CFClient" where
  \<comment> \<open>finder_test.go: \<open>ListServicesByQueryReturns([]cfclient.Service{service}, nil)\<close>\<close>
  "fixtureCFClient =
     recordingCFClient (\<lambda>calls u. ([\<lparr>Guid = ''service-guid'', Label = ''p.mysql''\<rparr>], None))"

definition failingCFClient :: "error \<Rightarrow> (Values list) CFClient" where
  "failingCFClient e = recordingCFClient (\<lambda>calls u. ([], Some e))"

definition emptyCFClient :: "(Values list) CFClient" where
  "emptyCFClient = recordingCFClient (\<lambda>calls u. ([], None))"

section \<open>Package plugin: the migrate command (plugin.go)\<close>

definition migrateUsage :: string where
  "migrateUsage =
     ''cf mysql-tools migrate [-h] [--no-cleanup] <source-service-instance> <p.mysql-plan-type>''"

text \<open>The interface \<open>Migrator\<close> of package plugin.\<close>

record 's plugin_Migrator =
  CheckServiceExists :: "string \<Rightarrow> 's \<Rightarrow> error option \<times> 's"
  CreateAndConfigureServiceInstance :: "string \<Rightarrow> string \<Rightarrow> 's \<Rightarrow> error option \<times> 's"
  MigrateData :: "string \<Rightarrow> string \<Rightarrow> bool \<Rightarrow> 's \<Rightarrow> error option \<times> 's"
  RenameServiceInstances :: "string \<Rightarrow> string \<Rightarrow> 's \<Rightarrow> error option \<times> 's"
  CleanupOnError :: "string \<Rightarrow> 's \<Rightarrow> error option \<times> 's"

text \<open>The anonymous struct \<open>opts\<close> of \<open>Migrate\<close>, its \<open>Args\<close> flattened.\<close>

record opts =
  Source :: string
  PlanName :: string
  NoCleanup :: bool

text \<open>\<open>strings.Join\<close>.\<close>

fun Join :: "string list \<Rightarrow> string \<Rightarrow> string" where
  "Join [] sep = []"
| "Join [a] sep = a"
| "Join (a # b # bs) sep = a @ sep @ Join (b # bs) sep"

text \<open>
  \<open>Migrate\<close>. The go-flags parser is a library: \<open>ParseArgs\<close> is a parameter that
  gives the filled options, the arguments left over and the error. The log lines and
  the environment variable read for them are not part of the model; they do not reach
  the returned error or the migrator.
\<close>

definition Migrate ::
  "(string list \<Rightarrow> opts \<times> string list \<times> error option) \<Rightarrow> 's plugin_Migrator \<Rightarrow>
   string list \<Rightarrow> 's \<Rightarrow> error option \<times> 's" where
  "Migrate ParseArgs migrator args s =
     (let (opts, args, err) = ParseArgs args in
      if err \<noteq> None \<or> length args \<noteq> 0 then
        (let msg = ''unexpected arguments: '' @ Join args '' '';
             msg = (case err of Some e \<Rightarrow> e | None \<Rightarrow> msg)
         in (Some (''Usage: '' @ migrateUsage @ [CHR 0x0A, CHR 0x0A] @ msg), s))
      else
        let donorInstanceName = Source opts;
            tempRecipientInstanceName = donorInstanceName @ ''-new'';
            destPlan = PlanName opts;
            cleanup = (\<not> NoCleanup opts)
        in
          case CheckServiceExists migrator donorInstanceName s of
            (Some err, s) \<Rightarrow> (Some err, s)
          | (None, s) \<Rightarrow>
          (case CreateAndConfigureServiceInstance migrator destPlan tempRecipientInstanceName s of
            (Some err, s) \<Rightarrow>
              if cleanup then
                (let (_, s) = CleanupOnError migrator tempRecipientInstanceName s
                 in (Some (''error creating service instance: '' @ err
                       @ ''. Attempting to clean up service '' @ tempRecipientInstanceName), s))
              else
                (Some (''error creating service instance: '' @ err
                   @ ''. Not cleaning up service '' @ tempRecipientInstanceName), s)
          | (None, s) \<Rightarrow>
          (case MigrateData migrator donorInstanceName tempRecipientInstanceName cleanup s of
            (Some err, s) \<Rightarrow>
              if cleanup then
                (let (_, s) = CleanupOnError migrator tempRecipientInstanceName s
                 in (Some (''error migrating data: '' @ err
                       @ ''. Attempting to clean up service '' @ tempRecipientInstanceName), s))
              else
                (Some (''error migrating data: '' @ err
                   @ ''. Not cleaning up service '' @ tempRecipientInstanceName), s)
          | (None, s) \<Rightarrow>
              RenameServiceInstances migrator donorInstanceName tempRecipientInstanceName s)))"

text \<open>
  A recording migrator: its state is the list of the calls received so far, each with
  the error it answered; what it answers is a function of that list and of the
  arguments.
\<close>

datatype MigratorCall =
    CheckServiceExistsCall string "error option"
  | CreateAndConfigureServiceInstanceCall string string "error option"
  | MigrateDataCall string string bool "error option"
  | RenameServiceInstancesCall string string "error option"
  | CleanupOnErrorCall string "error option"

record MigratorStubs =
  CheckServiceExistsStub :: "MigratorCall list \<Rightarrow> string \<Rightarrow> error option"
  CreateAndConfigureServiceInstanceStub ::
    "MigratorCall list \<Rightarrow> string \<Rightarrow> string \<Rightarrow> error option"
  MigrateDataStub :: "MigratorCall list \<Rightarrow> string \<Rightarrow> string \<Rightarrow> bool \<Rightarrow> error option"
  RenameServiceInstancesStub :: "MigratorCall list \<Rightarrow> string \<Rightarrow> string \<Rightarrow> error option"
  CleanupOnErrorStub :: "MigratorCall list \<Rightarrow> string \<Rightarrow> error option"

definition recordingMigrator :: "MigratorStubs \<Rightarrow> (MigratorCall list) plugin_Migrator" where
  "recordingMigrator st =
     \<lparr>CheckServiceExists = (\<lambda>a tr.
        let r = CheckServiceExistsStub st tr a in (r, tr @ [CheckServiceExistsCall a r])),
      CreateAndConfigureServiceInstance = (\<lambda>a b tr.
        let r = CreateAndConfigureServiceInstanceStub st tr a b
        in (r, tr @ [CreateAndConfigureServiceInstanceCall a b r])),
      MigrateData = (\<lambda>a b c tr.
        let r = MigrateDataStub st tr a b c in (r, tr @ [MigrateDataCall a b c r])),
      RenameServiceInstances = (\<lambda>a b tr.
        let r = RenameServiceInstancesStub st tr a b
        in (r, tr @ [RenameServiceInstancesCall a b r])),
      CleanupOnError = (\<lambda>a tr.
        let r = CleanupOnErrorStub st tr a in (r, tr @ [CleanupOnErrorCall a r]))\<rparr>"

text \<open>
  A parser for the scenarios: \<open>--no-cleanup\<close> may stand anywhere, the first two other
  arguments are the positional ones, and what follows them is left over.
\<close>

definition scenarioParseArgs :: "string list \<Rightarrow> opts \<times> string list \<times> error option" where
  "scenarioParseArgs args =
     (let flag = (''--no-cleanup'' \<in> set args);
          pos = filter (\<lambda>a. a \<noteq> ''--no-cleanup'') args
      in case pos of
           src # plan # rest \<Rightarrow> (\<lparr>Source = src, PlanName = plan, NoCleanup = flag\<rparr>, rest, None)
         | _ \<Rightarrow> (\<lparr>Source = [], PlanName = [], NoCleanup = flag\<rparr>, [],
                 Some ''the required arguments were not provided''))"

definition scenarioStubs :: "error option \<Rightarrow> error option \<Rightarrow> MigratorStubs" where
  \<comment> \<open>what creating the instance and migrating the data answer; every other call succeeds\<close>
  "scenarioStubs create migrate =
     \<lparr>CheckServiceExistsStub = (\<lambda>tr a. None),
      CreateAndConfigureServiceInstanceStub = (\<lambda>tr a b. create),
      MigrateDataStub = (\<lambda>tr a b c. migrate),
      RenameServiceInstancesStub = (\<lambda>tr a b. None),
      CleanupOnErrorStub = (\<lambda>tr a. None)\<rparr>"

section \<open>Package migrate: the migrator (migrate.go)\<close>

text \<open>The interfaces \<open>client\<close> and \<open>unpacker\<close>.\<close>

record 's client =
  ServiceExists :: "string \<Rightarrow> 's \<Rightarrow> bool \<times> 's"
  CreateServiceInstance :: "string \<Rightarrow> string \<Rightarrow> 's \<Rightarrow> error option \<times> 's"
  GetHostnames :: "string \<Rightarrow> 's \<Rightarrow> (string list \<times> error option) \<times> 's"
  UpdateServiceConfig :: "string \<Rightarrow> string \<Rightarrow> 's \<Rightarrow> error option \<times> 's"
  BindService :: "string \<Rightarrow> string \<Rightarrow> 's \<Rightarrow> error option \<times> 's"
  DeleteApp :: "string \<Rightarrow> 's \<Rightarrow> error option \<times> 's"
  DeleteServiceInstance :: "string \<Rightarrow> 's \<Rightarrow> error option \<times> 's"
  DumpLogs :: "string \<Rightarrow> 's \<Rightarrow> 's"
  PushApp :: "string \<Rightarrow> string \<Rightarrow> 's \<Rightarrow> error option \<times> 's"
  RenameService :: "string \<Rightarrow> string \<Rightarrow> 's \<Rightarrow> error option \<times> 's"
  RunTask :: "string \<Rightarrow> string \<Rightarrow> 's \<Rightarrow> error option \<times> 's"
  StartApp :: "string \<Rightarrow> 's \<Rightarrow> error option \<times> 's"

record 's unpacker =
  Unpack :: "string \<Rightarrow> 's \<Rightarrow> error option \<times> 's"

text \<open>
  What \<open>MigrateData\<close> takes from the standard library and from the uuid package:
  \<open>os.TempDir\<close>, \<open>ioutil.TempDir\<close>, \<open>os.RemoveAll\<close>, \<open>uuid.New\<close>,
  \<open>time.Sleep\<close> (in seconds) and the quoting of the verb \<open>%q\<close>.
\<close>

record 's runtime =
  os_TempDir :: "'s \<Rightarrow> string"
  ioutil_TempDir :: "string \<Rightarrow> string \<Rightarrow> 's \<Rightarrow> (string \<times> error option) \<times> 's"
  os_RemoveAll :: "string \<Rightarrow> 's \<Rightarrow> error option \<times> 's"
  uuid_New :: "'s \<Rightarrow> string \<times> 's"
  time_Sleep :: "nat \<Rightarrow> 's \<Rightarrow> 's"
  Quote :: "string \<Rightarrow> string"

record 's Migrator =
  appName :: string
  client :: "'s client"
  unpacker :: "'s unpacker"

definition NewMigrator :: "'s client \<Rightarrow> 's unpacker \<Rightarrow> 's Migrator" where
  "NewMigrator c u = \<lparr>appName = [], client = c, unpacker = u\<rparr>"

text \<open>\<open>errors.Wrap(err, message)\<close>: the message, a colon and the cause.\<close>

definition Wrap :: "error \<Rightarrow> string \<Rightarrow> error" where
  "Wrap err message = message @ '': '' @ err"

definition Migrator_CheckServiceExists ::
  "'s Migrator \<Rightarrow> string \<Rightarrow> 's \<Rightarrow> error option \<times> 's" where
  "Migrator_CheckServiceExists m donorInstanceName s =
     (let (found, s) = ServiceExists (client m) donorInstanceName s in
      if \<not> found then (Some (''Service instance '' @ donorInstanceName @ '' not found''), s)
      else (None, s))"

text \<open>
  \<open>CreateAndConfigureServiceInstance\<close>. The verb \<open>%s\<close> prints the slice of host names
  in brackets, its elements separated by a space. The error of \<open>DeleteServiceInstance\<close>
  is dropped; the error of \<open>UpdateServiceConfig\<close> is assigned and never read.
\<close>

definition Migrator_CreateAndConfigureServiceInstance ::
  "'s Migrator \<Rightarrow> string \<Rightarrow> string \<Rightarrow> 's \<Rightarrow> error option \<times> 's" where
  \<open>Migrator_CreateAndConfigureServiceInstance m planType serviceName s =
     (case CreateServiceInstance (client m) planType serviceName s of
        (Some err, s) \<Rightarrow> (Some (Wrap err ''Error creating service instance''), s)
      | (None, s) \<Rightarrow>
     (case GetHostnames (client m) serviceName s of
        ((instanceIP, Some err), s) \<Rightarrow>
          (let (_, s) = DeleteServiceInstance (client m) serviceName s
           in (Some (Wrap err ''Error obtaining hostname for new service instance''), s))
      | ((instanceIP, None), s) \<Rightarrow>
          (let (err, s) = UpdateServiceConfig (client m) serviceName
                 (''{"enable_tls": ["'' @ ''['' @ Join instanceIP '' '' @ '']'' @ ''"]}'') s
           in (None, s))))\<close>

text \<open>
  \<open>MigrateData\<close>, in three parts, one for each stretch of the body between two
  \<open>defer\<close> statements. A deferred call runs when the function returns, whatever the
  path, the last deferred first: the part that registers it calls the rest of the body
  and then the deferred call. The method assigns \<open>m.appName\<close>, so the migrator is
  returned with the error.
\<close>

definition MigrateData_pushed ::
  "'s runtime \<Rightarrow> 's Migrator \<Rightarrow> string \<Rightarrow> string \<Rightarrow> 's \<Rightarrow> error option \<times> 's" where
  \<comment> \<open>from the first \<open>BindService\<close> to the end of the body\<close>
  "MigrateData_pushed rt m donorInstanceName recipientInstanceName s =
     (case BindService (client m) (appName m) donorInstanceName s of
        (Some err, s) \<Rightarrow>
          (Some (''failed to bind-service '' @ Quote rt (appName m) @ '' to application ''
             @ Quote rt donorInstanceName @ '': '' @ err), s)
      | (None, s) \<Rightarrow>
     (case BindService (client m) (appName m) recipientInstanceName s of
        (Some err, s) \<Rightarrow>
          (Some (''failed to bind-service '' @ Quote rt (appName m) @ '' to application ''
             @ Quote rt recipientInstanceName @ '': '' @ err), s)
      | (None, s) \<Rightarrow>
     (case StartApp (client m) (appName m) s of
        (Some err, s) \<Rightarrow>
          (Some (''failed to start application '' @ Quote rt (appName m) @ '': '' @ err), s)
      | (None, s) \<Rightarrow>
     (let command = ''./migrate '' @ donorInstanceName @ '' '' @ recipientInstanceName in
      case RunTask (client m) (appName m) command s of
        (Some err, s) \<Rightarrow>
          (let s = time_Sleep rt 5 s;
               s = DumpLogs (client m) (appName m) s
           in (Some err, s))
      | (None, s) \<Rightarrow> (None, s)))))"

definition MigrateData_unpacking ::
  "'s runtime \<Rightarrow> 's Migrator \<Rightarrow> string \<Rightarrow> string \<Rightarrow> string \<Rightarrow> 's \<Rightarrow>
   error option \<times> 's Migrator \<times> 's" where
  \<comment> \<open>from \<open>Unpack\<close> on; the deferred closure reads \<open>m.appName\<close> when it runs\<close>
  "MigrateData_unpacking rt m tmpDir donorInstanceName recipientInstanceName s =
     (case Unpack (unpacker m) tmpDir s of
        (Some err, s) \<Rightarrow> (Some (''Error extracting migrate assets: '' @ err), m, s)
      | (None, s) \<Rightarrow>
     (let (u, s) = uuid_New rt s;
          m = m\<lparr>appName := ''migrate-app-'' @ u\<rparr>
      in case PushApp (client m) tmpDir (appName m) s of
        (Some err, s) \<Rightarrow> (Some (''failed to push application: '' @ err), m, s)
      | (None, s) \<Rightarrow>
          (let (result, s) = MigrateData_pushed rt m donorInstanceName recipientInstanceName s;
               (_, s) = DeleteApp (client m) (appName m) s
           in (result, m, s))))"

definition Migrator_MigrateData ::
  "'s runtime \<Rightarrow> 's Migrator \<Rightarrow> string \<Rightarrow> string \<Rightarrow> 's \<Rightarrow>
   error option \<times> 's Migrator \<times> 's" where
  "Migrator_MigrateData rt m donorInstanceName recipientInstanceName s =
     (case ioutil_TempDir rt (os_TempDir rt s) ''migrate_app_'' s of
        ((tmpDir, Some err), s) \<Rightarrow> (Some (''Error creating temp directory: '' @ err), m, s)
      | ((tmpDir, None), s) \<Rightarrow>
          (let (result, m, s) =
                 MigrateData_unpacking rt m tmpDir donorInstanceName recipientInstanceName s;
               (_, s) = os_RemoveAll rt tmpDir s
           in (result, m, s)))"

definition Migrator_RenameServiceInstances ::
  "'s Migrator \<Rightarrow> string \<Rightarrow> string \<Rightarrow> 's \<Rightarrow> error option \<times> 's" where
  "Migrator_RenameServiceInstances m donorInstanceName recipientInstanceName s =
     (let newDonorInstanceName = donorInstanceName @ ''-old'' in
      case RenameService (client m) donorInstanceName newDonorInstanceName s of
        (Some err, s) \<Rightarrow>
          (Some (''Error renaming service instance '' @ donorInstanceName @ '': '' @ err), s)
      | (None, s) \<Rightarrow>
     (case RenameService (client m) recipientInstanceName donorInstanceName s of
        (Some err, s) \<Rightarrow>
          (Some (''Error renaming service instance '' @ recipientInstanceName @ '': '' @ err), s)
      | (None, s) \<Rightarrow> (None, s)))"

definition Migrator_CleanupOnError :: "'s Migrator \<Rightarrow> string \<Rightarrow> 's \<Rightarrow> error option \<times> 's" where
  "Migrator_CleanupOnError m recipientServiceInstance s =
     DeleteServiceInstance (client m) recipientServiceInstance s"

text \<open>
  A recording world for the migrator, as the generated fakes of its tests are: the
  state is the list of the calls made so far on the client, the unpacker and the
  library, each with what it answered, and every answer is a function of that list and
  of the arguments.
\<close>

datatype call =
    ServiceExistsCall string bool
  | CreateServiceInstanceCall string string "error option"
  | GetHostnamesCall string "string list" "error option"
  | UpdateServiceConfigCall string string "error option"
  | BindServiceCall string string "error option"
  | DeleteAppCall string "error option"
  | DeleteServiceInstanceCall string "error option"
  | DumpLogsCall string
  | PushAppCall string string "error option"
  | RenameServiceCall string string "error option"
  | RunTaskCall string string "error option"
  | StartAppCall string "error option"
  | UnpackCall string "error option"
  | TempDirCall string string string "error option"
  | RemoveAllCall string "error option"
  | NewUUIDCall string
  | SleepCall nat

record stubs =
  ServiceExistsStub :: "call list \<Rightarrow> string \<Rightarrow> bool"
  CreateServiceInstanceStub :: "call list \<Rightarrow> string \<Rightarrow> string \<Rightarrow> error option"
  GetHostnamesStub :: "call list \<Rightarrow> string \<Rightarrow> string list \<times> error option"
  UpdateServiceConfigStub :: "call list \<Rightarrow> string \<Rightarrow> string \<Rightarrow> error option"
  BindServiceStub :: "call list \<Rightarrow> string \<Rightarrow> string \<Rightarrow> error option"
  DeleteAppStub :: "call list \<Rightarrow> string \<Rightarrow> error option"
  DeleteServiceInstanceStub :: "call list \<Rightarrow> string \<Rightarrow> error option"
  PushAppStub :: "call list \<Rightarrow> string \<Rightarrow> string \<Rightarrow> error option"
  RenameServiceStub :: "call list \<Rightarrow> string \<Rightarrow> string \<Rightarrow> error option"
  RunTaskStub :: "call list \<Rightarrow> string \<Rightarrow> string \<Rightarrow> error option"
  StartAppStub :: "call list \<Rightarrow> string \<Rightarrow> error option"
  UnpackStub :: "call list \<Rightarrow> string \<Rightarrow> error option"
  osTempDirStub :: "call list \<Rightarrow> string"
  TempDirStub :: "call list \<Rightarrow> string \<Rightarrow> string \<Rightarrow> string \<times> error option"
  RemoveAllStub :: "call list \<Rightarrow> string \<Rightarrow> error option"
  NewUUIDStub :: "call list \<Rightarrow> string"
  QuoteStub :: "string \<Rightarrow> string"

definition recordingClient :: "stubs \<Rightarrow> (call list) client" where
  "recordingClient st =
     \<lparr>ServiceExists = (\<lambda>a tr.
        let r = ServiceExistsStub st tr a in (r, tr @ [ServiceExistsCall a r])),
      CreateServiceInstance = (\<lambda>a b tr.
        let r = CreateServiceInstanceStub st tr a b
        in (r, tr @ [CreateServiceInstanceCall a b r])),
      GetHostnames = (\<lambda>a tr.
        let r = GetHostnamesStub st tr a in (r, tr @ [GetHostnamesCall a (fst r) (snd r)])),
      UpdateServiceConfig = (\<lambda>a b tr.
        let r = UpdateServiceConfigStub st tr a b in (r, tr @ [UpdateServiceConfigCall a b r])),
      BindService = (\<lambda>a b tr.
        let r = BindServiceStub st tr a b in (r, tr @ [BindServiceCall a b r])),
      DeleteApp = (\<lambda>a tr.
        let r = DeleteAppStub st tr a in (r, tr @ [DeleteAppCall a r])),
      DeleteServiceInstance = (\<lambda>a tr.
        let r = DeleteServiceInstanceStub st tr a in (r, tr @ [DeleteServiceInstanceCall a r])),
      DumpLogs = (\<lambda>a tr. tr @ [DumpLogsCall a]),
      PushApp = (\<lambda>a b tr.
        let r = PushAppStub st tr a b in (r, tr @ [PushAppCall a b r])),
      RenameService = (\<lambda>a b tr.
        let r = RenameServiceStub st tr a b in (r, tr @ [RenameServiceCall a b r])),
      RunTask = (\<lambda>a b tr.
        let r = RunTaskStub st tr a b in (r, tr @ [RunTaskCall a b r])),
      StartApp = (\<lambda>a tr.
        let r = StartAppStub st tr a in (r, tr @ [StartAppCall a r]))\<rparr>"

definition recordingUnpacker :: "stubs \<Rightarrow> (call list) unpacker" where
  "recordingUnpacker st =
     \<lparr>Unpack = (\<lambda>a tr. let r = UnpackStub st tr a in (r, tr @ [UnpackCall a r]))\<rparr>"

definition recordingRuntime :: "stubs \<Rightarrow> (call list) runtime" where
  "recordingRuntime st =
     \<lparr>os_TempDir = osTempDirStub st,
      ioutil_TempDir = (\<lambda>a b tr.
        let r = TempDirStub st tr a b in (r, tr @ [TempDirCall a b (fst r) (snd r)])),
      os_RemoveAll = (\<lambda>a tr.
        let r = RemoveAllStub st tr a in (r, tr @ [RemoveAllCall a r])),
      uuid_New = (\<lambda>tr. let r = NewUUIDStub st tr in (r, tr @ [NewUUIDCall r])),
      time_Sleep = (\<lambda>n tr. tr @ [SleepCall n]),
      Quote = QuoteStub st\<rparr>"

definition recordingMigratorOf :: "stubs \<Rightarrow> (call list) Migrator" where
  "recordingMigratorOf st = NewMigrator (recordingClient st) (recordingUnpacker st)"

text \<open>
  The stubs of the scenarios: every call succeeds but those named by the arguments;
  the temporary directory, the host names and the identifier are fixed.
\<close>

definition scenario ::
  "error option \<Rightarrow> error option \<Rightarrow> error option \<Rightarrow> error option \<Rightarrow> stubs" where
  "scenario hostnames update bind task =
     \<lparr>ServiceExistsStub = (\<lambda>tr a. True),
      CreateServiceInstanceStub = (\<lambda>tr a b. None),
      GetHostnamesStub = (\<lambda>tr a. (case hostnames of None \<Rightarrow> [''10.0.0.1''] | Some e \<Rightarrow> [],
                                   hostnames)),
      UpdateServiceConfigStub = (\<lambda>tr a b. update),
      BindServiceStub = (\<lambda>tr a b. bind),
      DeleteAppStub = (\<lambda>tr a. None),
      DeleteServiceInstanceStub = (\<lambda>tr a. None),
      PushAppStub = (\<lambda>tr a b. None),
      RenameServiceStub = (\<lambda>tr a b. None),
      RunTaskStub = (\<lambda>tr a b. task),
      StartAppStub = (\<lambda>tr a. None),
      UnpackStub = (\<lambda>tr a. None),
      osTempDirStub = (\<lambda>tr. ''/tmp''),
      TempDirStub = (\<lambda>tr a b. (a @ ''/'' @ b @ ''1'', None)),
      RemoveAllStub = (\<lambda>tr a. None),
      NewUUIDStub = (\<lambda>tr. ''0f8fad5b''),
      QuoteStub = (\<lambda>a. [CHR 0x22] @ a @ [CHR 0x22])\<rparr>"

section \<open>Binding discovery as specified: the correlator of one instance\<close>



record Key =
  key_name :: string
  key_instance :: string

record App =
  app_id :: string
  app_name :: string
  app_space :: string

record Space =
  space_name :: string
  space_org :: string

record Org =
  org_name :: string























section \<open>Binding discovery: what \<open>FindBindings\<close> returns and what it calls\<close>

lemma FindBindings_result:
  "fst (FindBindings bf l s) =
     ([\<lparr>App = ''app'', Key = [], Org = ''org-name'', Space = ''space-name''\<rparr>], None)"
  by (simp add: FindBindings_def Let_def split: prod.splits)

lemma FindBindings_calls:
  "snd (FindBindings bf l s) =
     snd (ListServicesByQuery (cfClient bf) [''q'' \<mapsto> [''label:'' @ l]] s)"
  by (simp add: FindBindings_def Values_Set_def Let_def split: prod.splits)

lemma FindBindings_recorded:
  "snd (FindBindings (NewBindingFinder (recordingCFClient stub)) l calls) =
     calls @ [[''q'' \<mapsto> [''label:'' @ l]]]"
  by (simp add: FindBindings_calls NewBindingFinder_def recordingCFClient_def)

text \<open>
  C1 (the code at the failing input). The claim: when a filtered-list call of the
  discovery fails, \<open>FindBindings\<close> stops, returns that error and no output. The code:
  on a client whose \<open>ListServicesByQuery\<close> answers the error \<open>e\<close>, for every label,
  \<open>FindBindings\<close> issues that one call and returns a \<open>nil\<close> error together with a
  one-record output.
\<close>

theorem FindBindings_discards_list_error:
  "fst (ListServicesByQuery (failingCFClient e) [''q'' \<mapsto> [''label:'' @ l]] []) = ([], Some e) \<and>
   FindBindings (NewBindingFinder (failingCFClient e)) l [] =
     (([\<lparr>App = ''app'', Key = [], Org = ''org-name'', Space = ''space-name''\<rparr>], None),
      [[''q'' \<mapsto> [''label:'' @ l]]])"
  using FindBindings_result [of "NewBindingFinder (failingCFClient e)" l "[]"]
    FindBindings_recorded [of "\<lambda>calls u. ([], Some e)" l "[]"]
  by (simp add: prod_eq_iff failingCFClient_def recordingCFClient_def)

text \<open>
  C2 (the code at the failing input). The claim: on the reference fixture,
  \<open>FindBindings "p.mysql"\<close> returns the four records of instance1 and instance3. The
  code: on the fixture's client it returns one record, whose application is \<open>app\<close>
  and whose key is empty.
\<close>

theorem FindBindings_on_fixture:
  "fst (FindBindings (NewBindingFinder fixtureCFClient) ''p.mysql'' []) =
     ([\<lparr>App = ''app'', Key = [], Org = ''org-name'', Space = ''space-name''\<rparr>], None) \<and>
   length (fst (fst (FindBindings (NewBindingFinder fixtureCFClient) ''p.mysql'' []))) = 1"
  by (simp add: FindBindings_result)

text \<open>
  C5 (the code at the failing input). The claim: when the list of services has no
  match for the label, the output is empty and there is no error. The code: on a
  client that answers the empty list there is no error, and the output is not empty.
\<close>

theorem FindBindings_no_match:
  "fst (ListServicesByQuery emptyCFClient [''q'' \<mapsto> [''label:'' @ l]] []) = ([], None) \<and>
   fst (FindBindings (NewBindingFinder emptyCFClient) l []) =
     ([\<lparr>App = ''app'', Key = [], Org = ''org-name'', Space = ''space-name''\<rparr>], None) \<and>
   fst (fst (FindBindings (NewBindingFinder emptyCFClient) l [])) \<noteq> []"
  by (simp add: FindBindings_result emptyCFClient_def recordingCFClient_def)

text \<open>
  C6. Every filtered-list call of the discovery carries one equality predicate on one
  field: on a recording client, whatever it answers and whatever it received before,
  \<open>FindBindings\<close> for the label \<open>L\<close> adds exactly one query to the calls, and that
  query has the single key \<open>q\<close> with the single value \<open>label:L\<close>.
\<close>

theorem FindBindings_single_label_query:
  "snd (FindBindings (NewBindingFinder (recordingCFClient stub)) L calls) =
     calls @ [[''q'' \<mapsto> [''label:'' @ L]]] \<and>
   dom (last (snd (FindBindings (NewBindingFinder (recordingCFClient stub)) L calls))) = {''q''} \<and>
   last (snd (FindBindings (NewBindingFinder (recordingCFClient stub)) L calls)) ''q'' =
     Some [''label:'' @ L]"
  by (simp add: FindBindings_recorded)

text \<open>
  C8. Two calls of \<open>FindBindings\<close> on the same finder and label give the same output:
  the second call, made in the state the first one left the client in, returns what
  the first returned. The finder itself is not changed by a call.
\<close>

theorem FindBindings_twice:
  "fst (FindBindings bf l (snd (FindBindings bf l s))) = fst (FindBindings bf l s)"
  by (simp add: FindBindings_result)

section \<open>The migrate command: cleanup after a failure\<close>

text \<open>
  C7, as amended. Let the arguments parse without error and without leftover, and run
  \<open>Migrate\<close> on a recording migrator that has received no call. When creating the
  recipient instance fails with \<open>e\<close>, or creating succeeds and migrating the data fails
  with \<open>e\<close>: without \<open>--no-cleanup\<close>, \<open>CleanupOnError\<close> is called once, last, on the
  donor's name followed by \<open>-new\<close>, and the error returned ends in
  \<open>Attempting to clean up service\<close> and that name; with \<open>--no-cleanup\<close>,
  \<open>CleanupOnError\<close> is not called, and the error returned has the same beginning and
  the same cause and ends in \<open>Not cleaning up service\<close> and that name.
\<close>

theorem Migrate_cleanup_on_failure:
  assumes parsed: "ParseArgs args = (\<lparr>Source = donor, PlanName = plan, NoCleanup = nc\<rparr>, [], None)"
      and run: "Migrate ParseArgs (recordingMigrator st) args [] = (res, tr)"
  shows "(CreateAndConfigureServiceInstanceCall p n (Some e) \<in> set tr \<longrightarrow>
           (if nc
            then res = Some (''error creating service instance: '' @ e
                   @ ''. Not cleaning up service '' @ donor @ ''-new'') \<and>
                 tr = [CheckServiceExistsCall donor None,
                       CreateAndConfigureServiceInstanceCall plan (donor @ ''-new'') (Some e)]
            else res = Some (''error creating service instance: '' @ e
                   @ ''. Attempting to clean up service '' @ donor @ ''-new'') \<and>
                 (\<exists>r. tr = [CheckServiceExistsCall donor None,
                       CreateAndConfigureServiceInstanceCall plan (donor @ ''-new'') (Some e),
                       CleanupOnErrorCall (donor @ ''-new'') r]))) \<and>
         (MigrateDataCall d n c (Some e) \<in> set tr \<longrightarrow>
           (if nc
            then res = Some (''error migrating data: '' @ e
                   @ ''. Not cleaning up service '' @ donor @ ''-new'') \<and>
                 tr = [CheckServiceExistsCall donor None,
                       CreateAndConfigureServiceInstanceCall plan (donor @ ''-new'') None,
                       MigrateDataCall donor (donor @ ''-new'') False (Some e)]
            else res = Some (''error migrating data: '' @ e
                   @ ''. Attempting to clean up service '' @ donor @ ''-new'') \<and>
                 (\<exists>r. tr = [CheckServiceExistsCall donor None,
                       CreateAndConfigureServiceInstanceCall plan (donor @ ''-new'') None,
                       MigrateDataCall donor (donor @ ''-new'') True (Some e),
                       CleanupOnErrorCall (donor @ ''-new'') r])))"
  using run
  by (auto simp: Migrate_def parsed recordingMigrator_def Let_def
      split: prod.splits option.splits if_splits)

text \<open>
  The theorem at \<open>cf mysql-tools migrate db small\<close>, where migrating the data fails
  with \<open>boom\<close>: the service \<open>db-new\<close> is cleaned up.
\<close>

theorem Migrate_cleanup_on_failure_witness:
  "scenarioParseArgs [''db'', ''small''] =
     (\<lparr>Source = ''db'', PlanName = ''small'', NoCleanup = False\<rparr>, [], None) \<and>
   Migrate scenarioParseArgs (recordingMigrator (scenarioStubs None (Some ''boom'')))
       [''db'', ''small''] [] =
     (Some ''error migrating data: boom. Attempting to clean up service db-new'',
      [CheckServiceExistsCall ''db'' None,
       CreateAndConfigureServiceInstanceCall ''small'' ''db-new'' None,
       MigrateDataCall ''db'' ''db-new'' True (Some ''boom''),
       CleanupOnErrorCall ''db-new'' None]) \<and>
   (\<exists>r. [CheckServiceExistsCall ''db'' None,
       CreateAndConfigureServiceInstanceCall ''small'' ''db-new'' None,
       MigrateDataCall ''db'' ''db-new'' True (Some ''boom''),
       CleanupOnErrorCall ''db-new'' None] =
      [CheckServiceExistsCall ''db'' None,
       CreateAndConfigureServiceInstanceCall ''small'' (''db'' @ ''-new'') None,
       MigrateDataCall ''db'' (''db'' @ ''-new'') True (Some ''boom''),
       CleanupOnErrorCall (''db'' @ ''-new'') r])"
proof -
  let ?tr = "[CheckServiceExistsCall ''db'' None,
       CreateAndConfigureServiceInstanceCall ''small'' ''db-new'' None,
       MigrateDataCall ''db'' ''db-new'' True (Some ''boom''),
       CleanupOnErrorCall ''db-new'' None]"
  have parsed: "scenarioParseArgs [''db'', ''small''] =
     (\<lparr>Source = ''db'', PlanName = ''small'', NoCleanup = False\<rparr>, [], None)"
    by (simp add: scenarioParseArgs_def)
  have run: "Migrate scenarioParseArgs (recordingMigrator (scenarioStubs None (Some ''boom'')))
       [''db'', ''small''] [] =
     (Some ''error migrating data: boom. Attempting to clean up service db-new'', ?tr)"
    by (simp add: Migrate_def parsed scenarioStubs_def recordingMigrator_def Let_def)
  have failed: "MigrateDataCall ''db'' ''db-new'' True (Some ''boom'') \<in> set ?tr"
    by simp
  note Migrate_cleanup_on_failure [OF parsed run, THEN conjunct2, THEN mp, OF failed]
  then have "\<exists>r. ?tr =
      [CheckServiceExistsCall ''db'' None,
       CreateAndConfigureServiceInstanceCall ''small'' (''db'' @ ''-new'') None,
       MigrateDataCall ''db'' (''db'' @ ''-new'') True (Some ''boom''),
       CleanupOnErrorCall (''db'' @ ''-new'') r]"
    unfolding if_False by (rule conjunct2)
  with parsed run show ?thesis
    by (intro conjI)
qed

text \<open>
  C7 as stated fails: with \<open>--no-cleanup\<close> the error returned is not the error that is
  returned without it. Creating the instance fails with \<open>boom\<close> in both runs.
\<close>

theorem Migrate_no_cleanup_error_differs:
  "fst (Migrate scenarioParseArgs (recordingMigrator (scenarioStubs (Some ''boom'') None))
          [''--no-cleanup'', ''db'', ''small''] []) \<noteq>
   fst (Migrate scenarioParseArgs (recordingMigrator (scenarioStubs (Some ''boom'') None))
          [''db'', ''small''] [])"
  by (simp add: Migrate_def scenarioParseArgs_def scenarioStubs_def recordingMigrator_def Let_def)

section \<open>The migrator: creating and configuring the recipient instance\<close>

lemmas recording_defs =
  recordingMigratorOf_def NewMigrator_def recordingClient_def recordingUnpacker_def
  recordingRuntime_def

text \<open>
  C9. Run \<open>CreateAndConfigureServiceInstance\<close> on a recording client that has received
  no call. It returns an error exactly when the trace holds a failed
  \<open>CreateServiceInstance\<close> or a failed \<open>GetHostnames\<close>. When \<open>CreateServiceInstance\<close>
  fails, its wrapped error is returned and nothing else is called. When \<open>GetHostnames\<close>
  fails, \<open>DeleteServiceInstance\<close> is called on the instance just created, and then the
  wrapped error is returned. When both succeed, \<open>UpdateServiceConfig\<close> is called, and
  whatever it answers, an error or none, the result is \<open>nil\<close>.
\<close>

theorem CreateAndConfigure_errors:
  assumes run: \<open>Migrator_CreateAndConfigureServiceInstance (recordingMigratorOf st) plan name []
                  = (res, tr)\<close>
  shows \<open>((res \<noteq> None) =
            ((\<exists>e. CreateServiceInstanceCall plan name (Some e) \<in> set tr) \<or>
             (\<exists>h e. GetHostnamesCall name h (Some e) \<in> set tr))) \<and>
         (\<forall>e. CreateServiceInstanceCall plan name (Some e) \<in> set tr \<longrightarrow>
            res = Some (''Error creating service instance: '' @ e) \<and>
            tr = [CreateServiceInstanceCall plan name (Some e)]) \<and>
         (\<forall>h e. GetHostnamesCall name h (Some e) \<in> set tr \<longrightarrow>
            res = Some (''Error obtaining hostname for new service instance: '' @ e) \<and>
            (\<exists>r. tr = [CreateServiceInstanceCall plan name None,
                        GetHostnamesCall name h (Some e),
                        DeleteServiceInstanceCall name r])) \<and>
         (\<forall>cfg r. UpdateServiceConfigCall name cfg r \<in> set tr \<longrightarrow>
            res = None \<and>
            (\<exists>h. tr = [CreateServiceInstanceCall plan name None,
                        GetHostnamesCall name h None,
                        UpdateServiceConfigCall name cfg r])) \<and>
         (res = None \<longrightarrow>
            (\<exists>h r. tr = [CreateServiceInstanceCall plan name None,
                        GetHostnamesCall name h None,
                        UpdateServiceConfigCall name
                          (''{"enable_tls": ["['' @ Join h '' '' @ '']"]}'') r]))\<close>
  using run
  by (auto simp: Migrator_CreateAndConfigureServiceInstance_def recording_defs Let_def Wrap_def
      split: prod.splits option.splits if_splits)

text \<open>
  The theorem at two runs for the plan \<open>small\<close> and the instance \<open>db-new\<close>: in the
  first \<open>UpdateServiceConfig\<close> fails with \<open>bad\<close> and the result is \<open>nil\<close>; in the
  second \<open>GetHostnames\<close> fails with \<open>no host\<close> and the instance is deleted.
\<close>

theorem CreateAndConfigure_errors_witness:
  \<open>Migrator_CreateAndConfigureServiceInstance
       (recordingMigratorOf (scenario None (Some ''bad'') None None)) ''small'' ''db-new'' [] =
     (None,
      [CreateServiceInstanceCall ''small'' ''db-new'' None,
       GetHostnamesCall ''db-new'' [''10.0.0.1''] None,
       UpdateServiceConfigCall ''db-new'' ''{"enable_tls": ["[10.0.0.1]"]}'' (Some ''bad'')]) \<and>
   Migrator_CreateAndConfigureServiceInstance
       (recordingMigratorOf (scenario (Some ''no host'') None None None)) ''small'' ''db-new'' [] =
     (Some ''Error obtaining hostname for new service instance: no host'',
      [CreateServiceInstanceCall ''small'' ''db-new'' None,
       GetHostnamesCall ''db-new'' [] (Some ''no host''),
       DeleteServiceInstanceCall ''db-new'' None]) \<and>
   (\<exists>h. [CreateServiceInstanceCall ''small'' ''db-new'' None,
       GetHostnamesCall ''db-new'' [''10.0.0.1''] None,
       UpdateServiceConfigCall ''db-new'' ''{"enable_tls": ["[10.0.0.1]"]}'' (Some ''bad'')] =
      [CreateServiceInstanceCall ''small'' ''db-new'' None,
       GetHostnamesCall ''db-new'' h None,
       UpdateServiceConfigCall ''db-new'' ''{"enable_tls": ["[10.0.0.1]"]}'' (Some ''bad'')]) \<and>
   (\<exists>r. [CreateServiceInstanceCall ''small'' ''db-new'' None,
       GetHostnamesCall ''db-new'' [] (Some ''no host''),
       DeleteServiceInstanceCall ''db-new'' None] =
      [CreateServiceInstanceCall ''small'' ''db-new'' None,
       GetHostnamesCall ''db-new'' [] (Some ''no host''),
       DeleteServiceInstanceCall ''db-new'' r])\<close>
proof -
  let ?trU = \<open>[CreateServiceInstanceCall ''small'' ''db-new'' None,
       GetHostnamesCall ''db-new'' [''10.0.0.1''] None,
       UpdateServiceConfigCall ''db-new'' ''{"enable_tls": ["[10.0.0.1]"]}'' (Some ''bad'')]\<close>
  let ?trH = \<open>[CreateServiceInstanceCall ''small'' ''db-new'' None,
       GetHostnamesCall ''db-new'' [] (Some ''no host''),
       DeleteServiceInstanceCall ''db-new'' None]\<close>
  have update: \<open>Migrator_CreateAndConfigureServiceInstance
       (recordingMigratorOf (scenario None (Some ''bad'') None None)) ''small'' ''db-new'' [] =
     (None, ?trU)\<close>
    by (simp add: Migrator_CreateAndConfigureServiceInstance_def recording_defs scenario_def
        Let_def)
  have hostnames: \<open>Migrator_CreateAndConfigureServiceInstance
       (recordingMigratorOf (scenario (Some ''no host'') None None None)) ''small'' ''db-new'' [] =
     (Some ''Error obtaining hostname for new service instance: no host'', ?trH)\<close>
    by (simp add: Migrator_CreateAndConfigureServiceInstance_def recording_defs scenario_def
        Wrap_def Let_def)
  have updated: \<open>UpdateServiceConfigCall ''db-new'' ''{"enable_tls": ["[10.0.0.1]"]}'' (Some ''bad'')
      \<in> set ?trU\<close>
    by simp
  have failed: \<open>GetHostnamesCall ''db-new'' [] (Some ''no host'') \<in> set ?trH\<close>
    by simp
  note CreateAndConfigure_errors [OF update, THEN conjunct2, THEN conjunct2, THEN conjunct2,
      THEN conjunct1, rule_format, OF updated, THEN conjunct2]
    CreateAndConfigure_errors [OF hostnames, THEN conjunct2, THEN conjunct2, THEN conjunct1,
      rule_format, OF failed, THEN conjunct2]
  with update hostnames show ?thesis
    by (intro conjI)
qed

section \<open>The migrator: the migration app is deleted\<close>

lemma recordingRuntime_sel:
  "os_TempDir (recordingRuntime st) = osTempDirStub st"
  "ioutil_TempDir (recordingRuntime st) a b tr =
     (TempDirStub st tr a b,
      tr @ [TempDirCall a b (fst (TempDirStub st tr a b)) (snd (TempDirStub st tr a b))])"
  "os_RemoveAll (recordingRuntime st) a tr =
     (RemoveAllStub st tr a, tr @ [RemoveAllCall a (RemoveAllStub st tr a)])"
  "uuid_New (recordingRuntime st) tr = (NewUUIDStub st tr, tr @ [NewUUIDCall (NewUUIDStub st tr)])"
  by (simp_all add: recordingRuntime_def Let_def)

lemma recordingClient_sel:
  "PushApp (recordingClient st) a b tr =
     (PushAppStub st tr a b, tr @ [PushAppCall a b (PushAppStub st tr a b)])"
  "DeleteApp (recordingClient st) a tr =
     (DeleteAppStub st tr a, tr @ [DeleteAppCall a (DeleteAppStub st tr a)])"
  by (simp_all add: recordingClient_def Let_def)

lemma recordingUnpacker_sel:
  "Unpack (recordingUnpacker st) a tr =
     (UnpackStub st tr a, tr @ [UnpackCall a (UnpackStub st tr a)])"
  by (simp add: recordingUnpacker_def Let_def)

text \<open>
  The body after the push only adds calls, and none of them pushes or deletes an app.
\<close>

lemma MigrateData_pushed_trace:
  assumes "MigrateData_pushed (recordingRuntime st) m donor recipient tr0 = (res, tr)"
      and "client m = recordingClient st"
  shows "\<exists>mid. tr = tr0 @ mid \<and> (\<forall>a r. DeleteAppCall a r \<notin> set mid)
           \<and> (\<forall>a b r. PushAppCall a b r \<notin> set mid)"
  using assms
  by (auto simp: MigrateData_pushed_def recordingClient_def recordingRuntime_def Let_def
      split: prod.splits option.splits)

text \<open>
  From \<open>Unpack\<close> on: a successful push in the trace is the push of this call, and the
  trace ends with the deferred \<open>DeleteApp\<close> of the app pushed.
\<close>

lemma MigrateData_unpacking_trace:
  assumes run: "MigrateData_unpacking (recordingRuntime st) m tmp donor recipient tr0 = (res, m', tr)"
      and c: "client m = recordingClient st" and u: "unpacker m = recordingUnpacker st"
      and pushed: "PushAppCall path name None \<in> set tr"
      and fresh: "\<forall>a b r. PushAppCall a b r \<notin> set tr0"
  shows "\<exists>uerr u mid r.
           tr = tr0 @ [UnpackCall tmp uerr, NewUUIDCall u, PushAppCall path name None] @ mid
                  @ [DeleteAppCall name r] \<and>
           path = tmp \<and> name = ''migrate-app-'' @ u \<and> appName m' = name"
proof (cases "UnpackStub st tr0 tmp")
  case (Some e)
  with run u have "tr = tr0 @ [UnpackCall tmp (Some e)]"
    by (simp add: MigrateData_unpacking_def recordingUnpacker_sel)
  with pushed fresh show ?thesis by simp
next
  case None
  let ?tr1 = "tr0 @ [UnpackCall tmp None]"
  let ?u = "NewUUIDStub st ?tr1"
  let ?tr2 = "?tr1 @ [NewUUIDCall ?u]"
  let ?name = "''migrate-app-'' @ ?u"
  let ?m = "m\<lparr>appName := ?name\<rparr>"
  show ?thesis
  proof (cases "PushAppStub st ?tr2 tmp ?name")
    case (Some e)
    with run u c None have "tr = ?tr2 @ [PushAppCall tmp ?name (Some e)]"
      by (simp add: MigrateData_unpacking_def recordingUnpacker_sel recordingRuntime_sel
          recordingClient_sel Let_def)
    with pushed fresh show ?thesis by simp
  next
    case pushNone: None
    let ?tr3 = "?tr2 @ [PushAppCall tmp ?name None]"
    obtain res3 tr4 where
      p: "MigrateData_pushed (recordingRuntime st) ?m donor recipient ?tr3 = (res3, tr4)"
      by (cases "MigrateData_pushed (recordingRuntime st) ?m donor recipient ?tr3")
    from MigrateData_pushed_trace [OF p] c obtain mid where
      mid: "tr4 = ?tr3 @ mid" "\<forall>a b r. PushAppCall a b r \<notin> set mid"
      by auto
    from run u c None pushNone p
    have tr: "tr = tr4 @ [DeleteAppCall ?name (DeleteAppStub st tr4 ?name)]"
      and m': "m' = ?m"
      by (simp_all add: MigrateData_unpacking_def recordingUnpacker_sel recordingRuntime_sel
          recordingClient_sel Let_def)
    from pushed fresh tr mid have "path = tmp \<and> name = ?name"
      by auto
    with tr mid m' show ?thesis by simp
  qed
qed

text \<open>
  C10. Run \<open>MigrateData\<close> on a recording world that has received no call, whatever
  its calls answer. If the trace holds a successful \<open>PushApp\<close> of the app \<open>name\<close>
  from the directory \<open>path\<close>, then \<open>name\<close> is \<open>migrate-app-\<close> followed by the
  identifier that \<open>uuid.New\<close> gave before the push, and after the push, whatever the
  calls in between (binding, starting, running the task) answered, the trace ends
  with \<open>DeleteApp\<close> of \<open>name\<close>, followed only by the removal of the temporary
  directory.
\<close>

theorem MigrateData_deletes_pushed_app:
  assumes run: "Migrator_MigrateData (recordingRuntime st) (recordingMigratorOf st)
                  donor recipient [] = (res, m', tr)"
      and pushed: "PushAppCall path name None \<in> set tr"
  shows "\<exists>pre mid u r r'.
           tr = pre @ PushAppCall path name None # mid
                  @ [DeleteAppCall name r, RemoveAllCall path r'] \<and>
           NewUUIDCall u \<in> set pre \<and> name = ''migrate-app-'' @ u \<and> appName m' = name"
proof -
  let ?m = "recordingMigratorOf st"
  have c: "client ?m = recordingClient st" and u: "unpacker ?m = recordingUnpacker st"
    by (simp_all add: recordingMigratorOf_def NewMigrator_def)
  obtain tmp terr where td: "TempDirStub st [] (osTempDirStub st []) ''migrate_app_'' = (tmp, terr)"
    by force
  let ?T = "TempDirCall (osTempDirStub st []) ''migrate_app_'' tmp terr"
  show ?thesis
  proof (cases terr)
    case (Some e)
    with run td have "tr = [?T]"
      by (simp add: Migrator_MigrateData_def recordingRuntime_sel)
    with pushed show ?thesis by simp
  next
    case None
    obtain res1 m1 tr1 where
      un: "MigrateData_unpacking (recordingRuntime st) ?m tmp donor recipient [?T] = (res1, m1, tr1)"
      by (cases "MigrateData_unpacking (recordingRuntime st) ?m tmp donor recipient [?T]")
    with run td None have tr: "tr = tr1 @ [RemoveAllCall tmp (RemoveAllStub st tr1 tmp)]"
      and m': "m' = m1"
      by (simp_all add: Migrator_MigrateData_def recordingRuntime_sel)
    from pushed tr have "PushAppCall path name None \<in> set tr1"
      by simp
    from MigrateData_unpacking_trace [OF un c u this]
    obtain uerr u mid r where
      tr1: "tr1 = [?T] @ [UnpackCall tmp uerr, NewUUIDCall u, PushAppCall path name None] @ mid
                  @ [DeleteAppCall name r]"
      and eqs: "path = tmp" "name = ''migrate-app-'' @ u" "appName m1 = name"
      by auto
    let ?pre = "[?T, UnpackCall tmp uerr, NewUUIDCall u]"
    from tr tr1 eqs have "tr = ?pre @ PushAppCall path name None # mid
        @ [DeleteAppCall name r, RemoveAllCall path (RemoveAllStub st tr1 tmp)]"
      by simp
    moreover have "NewUUIDCall u \<in> set ?pre"
      by simp
    ultimately show ?thesis
      using eqs m' by blast
  qed
qed

text \<open>
  The theorem at a run where the push succeeds and the task fails with
  \<open>task failed\<close>: the app \<open>migrate-app-0f8fad5b\<close> is deleted.
\<close>

theorem MigrateData_deletes_pushed_app_witness:
  "snd (snd (Migrator_MigrateData (recordingRuntime (scenario None None None (Some ''task failed'')))
       (recordingMigratorOf (scenario None None None (Some ''task failed'')))
       ''db'' ''db-new'' [])) =
     [TempDirCall ''/tmp'' ''migrate_app_'' ''/tmp/migrate_app_1'' None,
      UnpackCall ''/tmp/migrate_app_1'' None,
      NewUUIDCall ''0f8fad5b'',
      PushAppCall ''/tmp/migrate_app_1'' ''migrate-app-0f8fad5b'' None,
      BindServiceCall ''migrate-app-0f8fad5b'' ''db'' None,
      BindServiceCall ''migrate-app-0f8fad5b'' ''db-new'' None,
      StartAppCall ''migrate-app-0f8fad5b'' None,
      RunTaskCall ''migrate-app-0f8fad5b'' ''./migrate db db-new'' (Some ''task failed''),
      SleepCall 5,
      DumpLogsCall ''migrate-app-0f8fad5b'',
      DeleteAppCall ''migrate-app-0f8fad5b'' None,
      RemoveAllCall ''/tmp/migrate_app_1'' None] \<and>
   fst (Migrator_MigrateData (recordingRuntime (scenario None None None (Some ''task failed'')))
       (recordingMigratorOf (scenario None None None (Some ''task failed'')))
       ''db'' ''db-new'' []) = Some ''task failed'' \<and>
   (\<exists>pre mid u r r'.
      snd (snd (Migrator_MigrateData (recordingRuntime (scenario None None None (Some ''task failed'')))
       (recordingMigratorOf (scenario None None None (Some ''task failed'')))
       ''db'' ''db-new'' [])) =
        pre @ PushAppCall ''/tmp/migrate_app_1'' ''migrate-app-0f8fad5b'' None # mid
          @ [DeleteAppCall ''migrate-app-0f8fad5b'' r, RemoveAllCall ''/tmp/migrate_app_1'' r'] \<and>
      NewUUIDCall u \<in> set pre \<and> ''migrate-app-0f8fad5b'' = ''migrate-app-'' @ u)"
proof -
  let ?st = "scenario None None None (Some ''task failed'')"
  let ?run = "Migrator_MigrateData (recordingRuntime ?st) (recordingMigratorOf ?st)
       ''db'' ''db-new'' []"
  have tr: "snd (snd ?run) =
     [TempDirCall ''/tmp'' ''migrate_app_'' ''/tmp/migrate_app_1'' None,
      UnpackCall ''/tmp/migrate_app_1'' None,
      NewUUIDCall ''0f8fad5b'',
      PushAppCall ''/tmp/migrate_app_1'' ''migrate-app-0f8fad5b'' None,
      BindServiceCall ''migrate-app-0f8fad5b'' ''db'' None,
      BindServiceCall ''migrate-app-0f8fad5b'' ''db-new'' None,
      StartAppCall ''migrate-app-0f8fad5b'' None,
      RunTaskCall ''migrate-app-0f8fad5b'' ''./migrate db db-new'' (Some ''task failed''),
      SleepCall 5,
      DumpLogsCall ''migrate-app-0f8fad5b'',
      DeleteAppCall ''migrate-app-0f8fad5b'' None,
      RemoveAllCall ''/tmp/migrate_app_1'' None]"
    and res: "fst ?run = Some ''task failed''"
    by (simp_all add: Migrator_MigrateData_def MigrateData_unpacking_def MigrateData_pushed_def
        recording_defs scenario_def Let_def)
  have run: "?run = (fst ?run, fst (snd ?run), snd (snd ?run))"
    by simp
  have pushed: "PushAppCall ''/tmp/migrate_app_1'' ''migrate-app-0f8fad5b'' None
      \<in> set (snd (snd ?run))"
    unfolding tr by simp
  from MigrateData_deletes_pushed_app [OF run pushed]
  have "\<exists>pre mid u r r'.
      snd (snd ?run) =
        pre @ PushAppCall ''/tmp/migrate_app_1'' ''migrate-app-0f8fad5b'' None # mid
          @ [DeleteAppCall ''migrate-app-0f8fad5b'' r, RemoveAllCall ''/tmp/migrate_app_1'' r'] \<and>
      NewUUIDCall u \<in> set pre \<and> ''migrate-app-0f8fad5b'' = ''migrate-app-'' @ u"
    by blast
  with tr res show ?thesis
    by (intro conjI)
qed

section \<open>The correlator as specified: lookups and the names of organisation and space\<close>











end
